theory Spec2Isabelle
  imports Main "HOL-Library.Sublist"
begin

section \<open>Data model of maintenance.go\<close>

text \<open>
  Byte slices and Go strings are both byte sequences; \<open>[]byte(s)\<close> is the identity.
  Modification times are instants on a line (\<open>time.Time\<close> compared with \<open>After\<close>);
  the zero \<open>time.Time\<close> is 0.
\<close>

type_synonym bytes = string
type_synonym addr = nat

definition LogLevelNone :: int where "LogLevelNone = 0"
definition LogLevelError :: int where "LogLevelError = 1"
definition LogLevelInfo :: int where "LogLevelInfo = 2"
definition LogLevelDebug :: int where "LogLevelDebug = 3"

record Config =
  MaintenanceService :: string
  MaintenanceFilePath :: string
  MaintenanceContent :: string
  BypassHeader :: string
  BypassHeaderValue :: string
  Enabled :: bool
  StatusCode :: int
  BypassPaths :: "string list"
  BypassFavicon :: bool
  LogLevel :: int
  MaintenanceTimeout :: int
  ContentType :: string

definition CreateConfig :: Config where
  "CreateConfig =
     \<lparr> MaintenanceService = '''',
       MaintenanceFilePath = '''',
       MaintenanceContent = '''',
       BypassHeader = ''X-Maintenance-Bypass'',
       BypassHeaderValue = ''true'',
       Enabled = True,
       StatusCode = 503,
       BypassPaths = [],
       BypassFavicon = True,
       LogLevel = LogLevelError,
       MaintenanceTimeout = 10,
       ContentType = ''text/html; charset=utf-8'' \<rparr>"

text \<open>The parts of \<open>url.URL\<close> the middleware reads or writes.\<close>

record URL =
  Scheme :: string
  Host :: string
  Path :: string

text \<open>
  The receiver \<open>*MaintenanceBypass\<close>. \<open>maintenanceService\<close> is a pointer that stays nil
  unless New takes the remote branch; \<open>maintenanceFileContent\<close> is a slice that is nil
  until a load succeeds. The next handler and the logger are collaborators and show up
  as events; the mutex has no effect on a single call.
\<close>

record MaintenanceBypass =
  maintenanceService :: "URL option"
  maintenanceFilePath :: string
  maintenanceFileContent :: "bytes option"
  maintenanceContent :: string
  maintenanceFileLastMod :: int
  bypassHeader :: string
  bypassHeaderValue :: string
  enabled :: bool
  statusCode :: int
  bypassPaths :: "string list"
  bypassFavicon :: bool
  name :: string
  logLevel :: int
  timeout :: int
  contentType :: string

subsection \<open>The world outside: file system, URL parser, requests on the heap\<close>

datatype os_error = ErrNotExist | ErrPermission | ErrIsDir

text \<open>
  \<open>os.Stat\<close> gives the modification time of a path or fails; \<open>ioutil.ReadFile\<close>
  gives the bytes of a path or fails. Both are answers of the operating system, so the
  file system is the pair of them.
\<close>

record file_system =
  os_Stat :: "string \<Rightarrow> os_error + int"
  ioutil_ReadFile :: "string \<Rightarrow> os_error + bytes"

datatype url_error = ParseError

datatype error =
    ErrAccessingFile os_error
  | ErrReadingFile os_error
  | ErrFileEmpty string
  | ErrLoadFile error
  | ErrInvalidURL url_error
  | ErrURLSchemeHost
  | ErrNoSource

text \<open>
  A request is reached through a pointer. Its URL and its header map are objects of their
  own, reached through the request. The heap holds the three kinds of object; \<open>brk\<close> is
  the first address never handed out.
  A header map answers a name with the values stored under it (the name as
  \<open>Header.Get\<close> looks it up); no value is the empty list.
  The body of a request is a stream that the middleware never reads; it is not an object
  of this heap.
\<close>

record Request =
  req_Method :: string
  req_URL :: addr
  req_Header :: addr
  req_Host :: string

record heap =
  requests :: "addr \<Rightarrow> Request"
  urls :: "addr \<Rightarrow> URL"
  headers :: "addr \<Rightarrow> (string \<Rightarrow> string list)"
  brk :: addr

text \<open>
  Calls received by an \<open>http.ResponseWriter\<close>, in order. A response writer is the log
  of the calls made on it.
\<close>

datatype rw_call =
    HeaderSet string string
  | HeaderAdd string string
  | HeaderDel string
  | WriteHeader int
  | Write bytes

type_synonym ResponseWriter = "rw_call list"

datatype handler =
    NextHandler
  | ServeMaintenanceFile
  | ServeMaintenanceContent
  | ProxyToMaintenanceService

text \<open>
  Everything else a call does to the outside: a line given to the logger (level and
  format string), a system call, the invocation of a handler with the request it is
  given, the round trip of the reverse proxy with the request it forwards, a panic.
\<close>

datatype event =
    Logged int string
  | OsStat string
  | OsReadFile string
  | Invoke handler addr
  | RoundTrip addr
  | Panic

section \<open>The functions of maintenance.go\<close>

definition log :: "MaintenanceBypass \<Rightarrow> int \<Rightarrow> string \<Rightarrow> event list" where
  "log m level format = (if level \<le> logLevel m then [Logged level format] else [])"

text \<open>
  \<open>loadMaintenanceFile\<close> returns the error (None for nil), the receiver after the call
  and the events of the call.
\<close>

definition loadMaintenanceFile ::
  "file_system \<Rightarrow> MaintenanceBypass \<Rightarrow> error option \<times> MaintenanceBypass \<times> event list" where
  "loadMaintenanceFile fs m =
     (case os_Stat fs (maintenanceFilePath m) of
        Inl err \<Rightarrow> (Some (ErrAccessingFile err), m, [OsStat (maintenanceFilePath m)])
      | Inr modTime \<Rightarrow>
          if maintenanceFileContent m \<noteq> None \<and> \<not> (modTime > maintenanceFileLastMod m)
          then (None, m, [OsStat (maintenanceFilePath m)])
          else
            (case ioutil_ReadFile fs (maintenanceFilePath m) of
               Inl err \<Rightarrow>
                 (Some (ErrReadingFile err), m,
                  [OsStat (maintenanceFilePath m), OsReadFile (maintenanceFilePath m)])
             | Inr content \<Rightarrow>
                 if length content = 0
                 then (Some (ErrFileEmpty (maintenanceFilePath m)), m,
                       [OsStat (maintenanceFilePath m), OsReadFile (maintenanceFilePath m)])
                 else (None,
                       m\<lparr> maintenanceFileContent := Some content,
                          maintenanceFileLastMod := modTime \<rparr>,
                       [OsStat (maintenanceFilePath m), OsReadFile (maintenanceFilePath m)]
                       @ log m LogLevelInfo ''Loaded maintenance file: %s (%d bytes)'')))"

text \<open>
  \<open>time.Duration(config.MaintenanceTimeout) * time.Second\<close> is a product of 64-bit
  signed integers and wraps.
\<close>

definition wrap64 :: "int \<Rightarrow> int" where
  "wrap64 n = (n + 2 ^ 63) mod 2 ^ 64 - 2 ^ 63"

text \<open>
  \<open>New\<close>: \<open>url.Parse\<close> is the standard library's and is a parameter. The result is
  the error or the middleware, with the events of the construction.
\<close>

definition New ::
  "(string \<Rightarrow> url_error + URL) \<Rightarrow> file_system \<Rightarrow> Config \<Rightarrow> string
     \<Rightarrow> (error + MaintenanceBypass) \<times> event list" where
  "New url_Parse fs config nm =
     (let statusCode0 = (if StatusCode config = 0 then 503 else StatusCode config);
          contentType0 = (if ContentType config = '''' then ''text/html; charset=utf-8''
                          else ContentType config);
          m = \<lparr> maintenanceService = None,
                maintenanceFilePath = MaintenanceFilePath config,
                maintenanceFileContent = None,
                maintenanceContent = MaintenanceContent config,
                maintenanceFileLastMod = 0,
                bypassHeader = BypassHeader config,
                bypassHeaderValue = BypassHeaderValue config,
                enabled = Enabled config,
                statusCode = statusCode0,
                bypassPaths = BypassPaths config,
                bypassFavicon = BypassFavicon config,
                name = nm,
                logLevel = LogLevel config,
                timeout = 0,
                contentType = contentType0 \<rparr>
      in
        if MaintenanceFilePath config \<noteq> '''' then
          (case loadMaintenanceFile fs m of
             (Some err, m', evs) \<Rightarrow> (Inl (ErrLoadFile err), evs)
           | (None, m', evs) \<Rightarrow> (Inr m', evs))
        else if MaintenanceContent config \<noteq> '''' then
          (Inr m, log m LogLevelInfo ''Using provided maintenance content (%d bytes)'')
        else if MaintenanceService config \<noteq> '''' then
          (case url_Parse (MaintenanceService config) of
             Inl err \<Rightarrow> (Inl (ErrInvalidURL err), [])
           | Inr maintenanceURL \<Rightarrow>
               if Scheme maintenanceURL = '''' \<or> Host maintenanceURL = ''''
               then (Inl ErrURLSchemeHost, [])
               else
                 (let timeout0 = wrap64 (MaintenanceTimeout config * 1000000000);
                      timeout1 = (if timeout0 = 0 then 10 * 1000000000 else timeout0)
                  in (Inr (m\<lparr> maintenanceService := Some maintenanceURL,
                               timeout := timeout1 \<rparr>), [])))
        else (Inl ErrNoSource, []))"

subsection \<open>Strings and headers\<close>

text \<open>\<open>strings.HasPrefix\<close> and \<open>strings.HasSuffix\<close>, as the standard library writes them.\<close>

definition HasPrefix :: "string \<Rightarrow> string \<Rightarrow> bool" where
  "HasPrefix s pre = (length s \<ge> length pre \<and> take (length pre) s = pre)"

definition HasSuffix :: "string \<Rightarrow> string \<Rightarrow> bool" where
  "HasSuffix s suf = (length s \<ge> length suf \<and> drop (length s - length suf) s = suf)"

text \<open>\<open>Header.Get\<close>: the first value stored under the name, the empty string when there is none.\<close>

definition Header_Get :: "(string \<Rightarrow> string list) \<Rightarrow> string \<Rightarrow> string" where
  "Header_Get h key = (case h key of [] \<Rightarrow> '''' | v # _ \<Rightarrow> v)"

subsection \<open>maintenanceResponseWriter\<close>

record maintenanceResponseWriter =
  ResponseWriter :: ResponseWriter
  w_statusCode :: int
  headerSet :: bool

definition maintenanceResponseWriter_WriteHeader ::
  "maintenanceResponseWriter \<Rightarrow> int \<Rightarrow> maintenanceResponseWriter" where
  "maintenanceResponseWriter_WriteHeader w code =
     (if \<not> headerSet w
      then w\<lparr> ResponseWriter := ResponseWriter w @ [WriteHeader (w_statusCode w)],
              headerSet := True \<rparr>
      else w)"

definition maintenanceResponseWriter_Write ::
  "maintenanceResponseWriter \<Rightarrow> bytes \<Rightarrow> maintenanceResponseWriter" where
  "maintenanceResponseWriter_Write w b =
     (let w1 = (if \<not> headerSet w
                then maintenanceResponseWriter_WriteHeader w (w_statusCode w)
                else w)
      in w1\<lparr> ResponseWriter := ResponseWriter w1 @ [Write b] \<rparr>)"

subsection \<open>Serving from the file and from the configuration\<close>

text \<open>
  \<open>http.Error\<close> of the standard library: it replaces the content headers, commits the
  code and prints the message with a newline.
\<close>

definition http_Error :: "ResponseWriter \<Rightarrow> string \<Rightarrow> int \<Rightarrow> ResponseWriter" where
  "http_Error rw msg code =
     rw @ [HeaderDel ''Content-Length'',
           HeaderSet ''Content-Type'' ''text/plain; charset=utf-8'',
           HeaderSet ''X-Content-Type-Options'' ''nosniff'',
           WriteHeader code,
           Write (msg @ [CHR 0x0A])]"

definition serveMaintenanceFile ::
  "MaintenanceBypass \<Rightarrow> file_system \<Rightarrow> ResponseWriter
     \<Rightarrow> MaintenanceBypass \<times> ResponseWriter \<times> event list" where
  "serveMaintenanceFile m fs rw =
     (case loadMaintenanceFile fs m of
        (Some err, m', evs) \<Rightarrow>
          (m',
           http_Error (rw @ [HeaderSet ''X-Maintenance-Mode'' ''true''])
             ''Service Temporarily Unavailable'' (statusCode m'),
           evs @ log m' LogLevelError ''Failed to load maintenance file: %v'')
      | (None, m', evs) \<Rightarrow>
          (let content = (case maintenanceFileContent m' of None \<Rightarrow> [] | Some c \<Rightarrow> c)
           in (m',
               rw @ [HeaderSet ''Content-Type'' (contentType m'),
                     HeaderSet ''Cache-Control'' ''no-cache, no-store, must-revalidate'',
                     HeaderSet ''X-Maintenance-Mode'' ''true'',
                     WriteHeader (statusCode m'),
                     Write content],
               evs)))"

definition serveMaintenanceContent :: "MaintenanceBypass \<Rightarrow> ResponseWriter \<Rightarrow> ResponseWriter" where
  "serveMaintenanceContent m rw =
     rw @ [HeaderSet ''Content-Type'' (contentType m),
           HeaderSet ''Cache-Control'' ''no-cache, no-store, must-revalidate'',
           HeaderSet ''X-Maintenance-Mode'' ''true'',
           WriteHeader (statusCode m),
           Write (maintenanceContent m)]"

subsection \<open>Proxying to the maintenance service\<close>

text \<open>
  \<open>req.Clone\<close>: a new request object with a new URL object and a new header map, each a
  copy of the original's.
\<close>

definition Request_Clone :: "heap \<Rightarrow> addr \<Rightarrow> addr \<times> heap" where
  "Request_Clone h r =
     (let a = brk h; r0 = requests h r
      in (a, h\<lparr> requests := (requests h)(a := r0\<lparr> req_URL := a, req_Header := a \<rparr>),
                 urls := (urls h)(a := urls h (req_URL r0)),
                 headers := (headers h)(a := headers h (req_Header r0)),
                 brk := Suc a \<rparr>))"

text \<open>
  What the transport of the reverse proxy comes back with: an error (unreachable, timeout,
  protocol error) or a response with its status code, its headers and its body as the
  chunks the proxy copies.
\<close>

datatype round_trip =
    TransportError
  | BackendResponse int "(string \<times> string) list" "bytes list"

text \<open>The \<open>proxy.ErrorHandler\<close> closure of \<open>proxyToMaintenanceService\<close>.\<close>

definition ErrorHandler ::
  "MaintenanceBypass \<Rightarrow> maintenanceResponseWriter \<Rightarrow> maintenanceResponseWriter \<times> event list" where
  "ErrorHandler m rw =
     (let w1 = rw\<lparr> ResponseWriter := ResponseWriter rw @ [HeaderSet ''X-Maintenance-Mode'' ''true''] \<rparr>;
          w2 = maintenanceResponseWriter_WriteHeader w1 (statusCode m);
          w3 = maintenanceResponseWriter_Write w2 ''Service temporarily unavailable''
      in (w3, log m LogLevelError ''Error proxying to maintenance service: %v''))"

text \<open>
  \<open>httputil.ReverseProxy.ServeHTTP\<close> of the standard library, as far as the writer it is
  given sees it: one round trip with the request; on a transport error the error handler;
  otherwise the response headers are added to the header map, the response's status code
  goes to \<open>WriteHeader\<close> and the body goes to \<open>Write\<close> chunk by chunk.
\<close>

definition ReverseProxy_ServeHTTP ::
  "(maintenanceResponseWriter \<Rightarrow> maintenanceResponseWriter \<times> event list) \<Rightarrow> round_trip
     \<Rightarrow> maintenanceResponseWriter \<Rightarrow> addr \<Rightarrow> maintenanceResponseWriter \<times> event list" where
  "ReverseProxy_ServeHTTP errorHandler rt w req =
     (case rt of
        TransportError \<Rightarrow>
          (case errorHandler w of (w', evs) \<Rightarrow> (w', RoundTrip req # evs))
      | BackendResponse code hdrs chunks \<Rightarrow>
          (let w1 = w\<lparr> ResponseWriter := ResponseWriter w @ map (\<lambda>(k, v). HeaderAdd k v) hdrs \<rparr>;
               w2 = maintenanceResponseWriter_WriteHeader w1 code;
               w3 = foldl maintenanceResponseWriter_Write w2 chunks
           in (w3, [RoundTrip req])))"

text \<open>
  \<open>proxyToMaintenanceService\<close>. With \<open>m.maintenanceService\<close> nil the dereference panics
  before anything is written.
\<close>

definition proxyToMaintenanceService ::
  "MaintenanceBypass \<Rightarrow> round_trip \<Rightarrow> heap \<Rightarrow> ResponseWriter \<Rightarrow> addr
     \<Rightarrow> heap \<times> ResponseWriter \<times> event list" where
  "proxyToMaintenanceService m rt h rw req =
     (case maintenanceService m of
        None \<Rightarrow> (h, rw, [Panic])
      | Some target \<Rightarrow>
          (let maintenanceWriter =
                 \<lparr> ResponseWriter = rw, w_statusCode = statusCode m, headerSet = False \<rparr>;
               (proxyReq, h1) = Request_Clone h req;
               u = req_URL (requests h1 proxyReq);
               h2 = h1\<lparr> urls := (urls h1)(u := (urls h1 u)\<lparr> Host := Host target \<rparr>) \<rparr>;
               h3 = h2\<lparr> urls := (urls h2)(u := (urls h2 u)\<lparr> Scheme := Scheme target \<rparr>) \<rparr>;
               h4 = h3\<lparr> requests :=
                          (requests h3)(proxyReq := (requests h3 proxyReq)\<lparr> req_Host := Host target \<rparr>) \<rparr>
           in (case ReverseProxy_ServeHTTP (ErrorHandler m) rt maintenanceWriter proxyReq of
                 (w', evs) \<Rightarrow> (h4, ResponseWriter w', evs))))"

subsection \<open>ServeHTTP\<close>

text \<open>The loop over \<open>m.bypassPaths\<close>: the first configured path that is a prefix of the request path.\<close>

fun matchBypassPath :: "string list \<Rightarrow> string \<Rightarrow> string option" where
  "matchBypassPath [] reqPath = None"
| "matchBypassPath (path # rest) reqPath =
     (if HasPrefix reqPath path then Some path else matchBypassPath rest reqPath)"

text \<open>
  \<open>ServeHTTP\<close> returns the receiver, the heap and the response writer after the call and
  the events of the call. Handing the request to the next handler is the event
  \<open>Invoke NextHandler req\<close>; what the next handler then does is its own.
\<close>

definition ServeHTTP ::
  "MaintenanceBypass \<Rightarrow> file_system \<Rightarrow> round_trip \<Rightarrow> heap \<Rightarrow> ResponseWriter \<Rightarrow> addr
     \<Rightarrow> MaintenanceBypass \<times> heap \<times> ResponseWriter \<times> event list" where
  "ServeHTTP m fs rt h rw req =
     (let reqPath = Path (urls h (req_URL (requests h req))) in
      if \<not> enabled m then
        (m, h, rw,
         log m LogLevelDebug ''Maintenance mode is disabled, passing request through: %s''
         @ [Invoke NextHandler req])
      else if bypassFavicon m \<and> HasSuffix reqPath ''/favicon.ico'' then
        (m, h, rw,
         log m LogLevelDebug ''Request is for favicon.ico, bypassing maintenance mode: %s''
         @ [Invoke NextHandler req])
      else
        (case matchBypassPath (bypassPaths m) reqPath of
           Some path \<Rightarrow>
             (m, h, rw,
              log m LogLevelDebug ''Request path %s matches bypass path %s, passing through''
              @ [Invoke NextHandler req])
         | None \<Rightarrow>
             (let headerValue =
                    Header_Get (headers h (req_Header (requests h req))) (bypassHeader m)
              in
                if headerValue = bypassHeaderValue m then
                  (m, h, rw,
                   log m LogLevelDebug ''Bypass header found with value %s, passing to next handler''
                   @ [Invoke NextHandler req])
                else
                  (let evs0 = log m LogLevelInfo ''No bypass condition met for %s, serving maintenance page'';
                       rw1 = rw @ [HeaderSet ''Retry-After'' ''3600'',
                                   HeaderSet ''X-Maintenance-Mode'' ''true'']
                   in
                     if maintenanceFilePath m \<noteq> '''' then
                       (case serveMaintenanceFile m fs rw1 of
                          (m', rw', evs) \<Rightarrow>
                            (m', h, rw', evs0 @ Invoke ServeMaintenanceFile req # evs))
                     else if maintenanceContent m \<noteq> '''' then
                       (m, h, serveMaintenanceContent m rw1,
                        evs0 @ [Invoke ServeMaintenanceContent req])
                     else
                       (case proxyToMaintenanceService m rt h rw1 req of
                          (h', rw', evs) \<Rightarrow>
                            (m, h', rw', evs0 @ Invoke ProxyToMaintenanceService req # evs))))))"

subsection \<open>What a client and a caller observe\<close>

text \<open>
  What the server's \<open>http.ResponseWriter\<close> makes of the calls it receives, as the client
  sees it. A \<open>WriteHeader\<close> with a code below 100 or above 999 panics: the handler is
  aborted and no status line goes out, whatever would have followed. A \<open>WriteHeader\<close> with
  a code from 100 to 199 other than 101 sends an informational response and commits
  nothing. The first other \<open>WriteHeader\<close> commits its code as the status of the response.
  A \<open>Write\<close> with nothing committed commits 200. The body is what the \<open>Write\<close> calls
  carry, in order.
\<close>

datatype commit = Uncommitted | Committed int | Aborted

fun committedStatus :: "ResponseWriter \<Rightarrow> commit" where
  "committedStatus [] = Uncommitted"
| "committedStatus (WriteHeader code # rest) =
     (if code < 100 \<or> 999 < code then Aborted
      else if 100 \<le> code \<and> code \<le> 199 \<and> code \<noteq> 101 then committedStatus rest
      else Committed code)"
| "committedStatus (Write b # rest) = Committed 200"
| "committedStatus (c # rest) = committedStatus rest"


text \<open>The codes given to \<open>WriteHeader\<close>, in order.\<close>

fun statusCommits :: "ResponseWriter \<Rightarrow> int list" where
  "statusCommits [] = []"
| "statusCommits (WriteHeader code # rest) = code # statusCommits rest"
| "statusCommits (c # rest) = statusCommits rest"

text \<open>The handlers a call invoked, in order.\<close>

fun invocations :: "event list \<Rightarrow> handler list" where
  "invocations [] = []"
| "invocations (Invoke callee req # rest) = callee # invocations rest"
| "invocations (e # rest) = invocations rest"
text \<open>Projections of what \<open>ServeHTTP\<close> returns, and the parts of a request it reads.\<close>

definition result_mb ::
  "MaintenanceBypass \<times> heap \<times> ResponseWriter \<times> event list \<Rightarrow> MaintenanceBypass" where
  "result_mb r = fst r"

definition result_heap ::
  "MaintenanceBypass \<times> heap \<times> ResponseWriter \<times> event list \<Rightarrow> heap" where
  "result_heap r = fst (snd r)"

definition result_rw ::
  "MaintenanceBypass \<times> heap \<times> ResponseWriter \<times> event list \<Rightarrow> ResponseWriter" where
  "result_rw r = fst (snd (snd r))"

definition result_events ::
  "MaintenanceBypass \<times> heap \<times> ResponseWriter \<times> event list \<Rightarrow> event list" where
  "result_events r = snd (snd (snd r))"

definition requestPath :: "heap \<Rightarrow> addr \<Rightarrow> string" where
  "requestPath h req = Path (urls h (req_URL (requests h req)))"

definition requestHeader :: "heap \<Rightarrow> addr \<Rightarrow> string \<Rightarrow> string list" where
  "requestHeader h req = headers h (req_Header (requests h req))"

text \<open>
  A middleware has a content source when one of the three is there. \<open>New\<close> returns no
  other middleware, and no call changes it.
\<close>

definition hasContentSource :: "MaintenanceBypass \<Rightarrow> bool" where
  "hasContentSource m =
     (maintenanceFilePath m \<noteq> '''' \<or> maintenanceContent m \<noteq> ''''
      \<or> maintenanceService m \<noteq> None)"

text \<open>The status code a configuration asks for: 503 stands in for 0.\<close>

definition resolvedStatusCode :: "Config \<Rightarrow> int" where
  "resolvedStatusCode config = (if StatusCode config = 0 then 503 else StatusCode config)"

text \<open>
  A sequence of calls on a \<open>maintenanceResponseWriter\<close>, as a handler that is given the
  writer may make them, and the body writes among them.
\<close>

datatype writer_call = CallWriteHeader int | CallWrite bytes

fun applyCall :: "maintenanceResponseWriter \<Rightarrow> writer_call \<Rightarrow> maintenanceResponseWriter" where
  "applyCall w (CallWriteHeader code) = maintenanceResponseWriter_WriteHeader w code"
| "applyCall w (CallWrite b) = maintenanceResponseWriter_Write w b"

fun bodyWrites :: "writer_call list \<Rightarrow> rw_call list" where
  "bodyWrites [] = []"
| "bodyWrites (CallWrite b # rest) = Write b # bodyWrites rest"
| "bodyWrites (CallWriteHeader code # rest) = bodyWrites rest"

section \<open>The bypass rules as the specification words them\<close>

text \<open>
  The specification's \<open>shouldBypass(config, request)\<close>, rule by rule in its order:
  not enabled; the favicon flag and a path that ends with \<open>/favicon.ico\<close>; a path that
  starts with some configured prefix; the request's value of the configured header (the
  empty string when the header is missing) equal to the configured value; otherwise
  false. The configuration fields are the ones the middleware carries.
\<close>

definition headerValue_spec :: "(string \<Rightarrow> string list) \<Rightarrow> string \<Rightarrow> string" where
  "headerValue_spec hdr nm = (if hdr nm = [] then '''' else hd (hdr nm))"

definition shouldBypass_spec ::
  "MaintenanceBypass \<Rightarrow> string \<Rightarrow> (string \<Rightarrow> string list) \<Rightarrow> bool" where
  "shouldBypass_spec config reqPath hdr =
     (if \<not> enabled config then True
      else if bypassFavicon config \<and> suffix ''/favicon.ico'' reqPath then True
      else if (\<exists>p \<in> set (bypassPaths config). prefix p reqPath) then True
      else if headerValue_spec hdr (bypassHeader config) = bypassHeaderValue config then True
      else False)"

section \<open>Concrete configurations, files and requests\<close>

definition example_path :: string where
  "example_path = ''/etc/traefik/maintenance.html''"

definition file_system_with :: "string \<Rightarrow> int \<Rightarrow> bytes \<Rightarrow> file_system" where
  "file_system_with p modTime content =
     \<lparr> os_Stat = (\<lambda>q. if q = p then Inr modTime else Inl ErrNotExist),
       ioutil_ReadFile = (\<lambda>q. if q = p then Inr content else Inl ErrNotExist) \<rparr>"

text \<open>The maintenance file as written at time 100; emptied at time 200; deleted.\<close>

definition example_fs :: file_system where
  "example_fs = file_system_with example_path 100 ''<html>down</html>''"

definition example_fs_emptied :: file_system where
  "example_fs_emptied = file_system_with example_path 200 ''''"

definition example_fs_deleted :: file_system where
  "example_fs_deleted =
     \<lparr> os_Stat = (\<lambda>q. Inl ErrNotExist), ioutil_ReadFile = (\<lambda>q. Inl ErrNotExist) \<rparr>"

definition example_url_Parse :: "string \<Rightarrow> url_error + URL" where
  "example_url_Parse s =
     (if s = ''http://maintenance-service''
      then Inr \<lparr> Scheme = ''http'', Host = ''maintenance-service'', Path = '''' \<rparr>
      else Inl ParseError)"

definition example_config_file :: Config where
  "example_config_file = CreateConfig\<lparr> MaintenanceFilePath := example_path \<rparr>"

definition example_config_file_and_inline :: Config where
  "example_config_file_and_inline =
     CreateConfig\<lparr> MaintenanceFilePath := example_path,
                   MaintenanceContent := ''<html>inline</html>'' \<rparr>"

definition example_config_remote :: Config where
  "example_config_remote = CreateConfig\<lparr> MaintenanceService := ''http://maintenance-service'' \<rparr>"

text \<open>The middlewares \<open>New\<close> builds from these configurations over \<open>example_fs\<close>.\<close>

definition example_m_file :: MaintenanceBypass where
  "example_m_file =
     \<lparr> maintenanceService = None,
       maintenanceFilePath = example_path,
       maintenanceFileContent = Some ''<html>down</html>'',
       maintenanceContent = '''',
       maintenanceFileLastMod = 100,
       bypassHeader = ''X-Maintenance-Bypass'',
       bypassHeaderValue = ''true'',
       enabled = True,
       statusCode = 503,
       bypassPaths = [],
       bypassFavicon = True,
       name = ''maintenance-test'',
       logLevel = 1,
       timeout = 0,
       contentType = ''text/html; charset=utf-8'' \<rparr>"

text \<open>The same middleware before its first load.\<close>

definition example_m_unloaded :: MaintenanceBypass where
  "example_m_unloaded =
     example_m_file\<lparr> maintenanceFileContent := None, maintenanceFileLastMod := 0 \<rparr>"

definition example_m_file_and_inline :: MaintenanceBypass where
  "example_m_file_and_inline = example_m_file\<lparr> maintenanceContent := ''<html>inline</html>'' \<rparr>"



text \<open>Inline content under a given status code, and the middleware \<open>New\<close> builds from it.\<close>

definition example_config_status :: "int \<Rightarrow> Config" where
  "example_config_status code =
     CreateConfig\<lparr> MaintenanceContent := ''<html>down</html>'', StatusCode := code \<rparr>"

definition example_m_status :: "int \<Rightarrow> MaintenanceBypass" where
  "example_m_status code =
     example_m_file\<lparr> maintenanceFilePath := '''',
                     maintenanceFileContent := None,
                     maintenanceContent := ''<html>down</html>'',
                     maintenanceFileLastMod := 0,
                     statusCode := code \<rparr>"

definition example_m_remote :: MaintenanceBypass where
  "example_m_remote =
     example_m_file\<lparr>
       maintenanceService := Some \<lparr> Scheme = ''http'', Host = ''maintenance-service'', Path = '''' \<rparr>,
       maintenanceFilePath := '''',
       maintenanceFileContent := None,
       maintenanceFileLastMod := 0,
       timeout := 10000000000 \<rparr>"

definition example_m_health :: MaintenanceBypass where
  "example_m_health = example_m_file\<lparr> bypassPaths := [''/health'', ''/api/status''] \<rparr>"

text \<open>A backend that answers 200 with a header and a body in two chunks.\<close>

definition example_rt :: round_trip where
  "example_rt = BackendResponse 200 [(''Content-Type'', ''text/html'')] [''<html>'', ''ok</html>'']"

text \<open>
  A heap with one request, \<open>GET http://example.com/test\<close> without headers, at address 0
  with its URL and its header map; and the same with the path \<open>/health/live\<close>.
\<close>

definition example_heap :: heap where
  "example_heap =
     \<lparr> requests = (\<lambda>a. \<lparr> req_Method = ''GET'', req_URL = 0, req_Header = 0,
                          req_Host = ''example.com'' \<rparr>),
       urls = (\<lambda>a. \<lparr> Scheme = ''http'', Host = ''example.com'', Path = ''/test'' \<rparr>),
       headers = (\<lambda>a nm. []),
       brk = 1 \<rparr>"

definition example_heap_health :: heap where
  "example_heap_health =
     example_heap\<lparr> urls := (\<lambda>a. \<lparr> Scheme = ''http'', Host = ''example.com'',
                                    Path = ''/health/live'' \<rparr>) \<rparr>"
section \<open>Reading the logs\<close>

lemma invocations_append: "invocations (xs @ ys) = invocations xs @ invocations ys"
  by (induction xs rule: invocations.induct) auto

lemma invocations_log: "invocations (log m l f) = []"
  by (simp add: log_def)

lemma Invoke_mem_invocations:
  "(\<exists>r. Invoke c r \<in> set evs) = (c \<in> set (invocations evs))"
  by (induction evs rule: invocations.induct) auto

lemma committedStatus_append:
  "committedStatus (xs @ ys) =
     (case committedStatus xs of
        Uncommitted \<Rightarrow> committedStatus ys
      | Committed c \<Rightarrow> Committed c
      | Aborted \<Rightarrow> Aborted)"
  by (induction xs rule: committedStatus.induct) auto

lemma committedStatus_HeaderAdd:
  "committedStatus (map (\<lambda>(k, v). HeaderAdd k v) hdrs) = Uncommitted"
  by (induction hdrs) auto


lemma statusCommits_append: "statusCommits (xs @ ys) = statusCommits xs @ statusCommits ys"
  by (induction xs rule: statusCommits.induct) auto

lemma statusCommits_bodyWrites: "statusCommits (bodyWrites calls) = []"
  by (induction calls rule: bodyWrites.induct) auto

lemma HasPrefix_prefix: "HasPrefix s pre = prefix pre s"
proof
  assume "HasPrefix s pre"
  then have "s = pre @ drop (length pre) s"
    by (metis HasPrefix_def append_take_drop_id)
  then show "prefix pre s" by (metis prefixI)
next
  assume "prefix pre s"
  then obtain zs where "s = pre @ zs" by (auto simp: prefix_def)
  then show "HasPrefix s pre" by (simp add: HasPrefix_def)
qed

lemma HasSuffix_suffix: "HasSuffix s suf = suffix suf s"
proof
  assume "HasSuffix s suf"
  then have "s = take (length s - length suf) s @ suf"
    by (metis HasSuffix_def append_take_drop_id)
  then show "suffix suf s" by (metis suffixI)
next
  assume "suffix suf s"
  then obtain zs where "s = zs @ suf" by (auto simp: suffix_def)
  then show "HasSuffix s suf" by (simp add: HasSuffix_def)
qed

lemma matchBypassPath_None:
  "(matchBypassPath paths reqPath = None) = (\<not> (\<exists>p \<in> set paths. prefix p reqPath))"
  by (induction paths) (auto simp: HasPrefix_prefix)

lemma Header_Get_spec: "Header_Get hdr nm = headerValue_spec hdr nm"
  by (cases "hdr nm") (simp_all add: Header_Get_def headerValue_spec_def)

section \<open>The file cache\<close>


lemma loadMaintenanceFile_fields:
  "loadMaintenanceFile fs m = (r, m', evs) \<Longrightarrow>
     maintenanceService m' = maintenanceService m
     \<and> maintenanceFilePath m' = maintenanceFilePath m
     \<and> maintenanceContent m' = maintenanceContent m
     \<and> statusCode m' = statusCode m
     \<and> contentType m' = contentType m
     \<and> enabled m' = enabled m
     \<and> bypassFavicon m' = bypassFavicon m
     \<and> bypassPaths m' = bypassPaths m
     \<and> bypassHeader m' = bypassHeader m
     \<and> bypassHeaderValue m' = bypassHeaderValue m"
  by (auto simp: loadMaintenanceFile_def split: sum.splits if_splits)

lemma loadMaintenanceFile_success:
  "loadMaintenanceFile fs m = (None, m', evs) \<Longrightarrow>
     \<exists>c modTime. maintenanceFileContent m' = Some c
       \<and> os_Stat fs (maintenanceFilePath m) = Inr modTime
       \<and> \<not> modTime > maintenanceFileLastMod m'
       \<and> maintenanceFilePath m' = maintenanceFilePath m"
  by (auto simp: loadMaintenanceFile_def split: sum.splits if_splits)

lemma loadMaintenanceFile_invocations:
  "loadMaintenanceFile fs m = (r, m', evs) \<Longrightarrow> invocations evs = []"
  by (auto simp: loadMaintenanceFile_def log_def split: sum.splits if_splits)

section \<open>The status-overriding writer\<close>

lemma applyCalls_after_commit:
  "headerSet w \<Longrightarrow>
     ResponseWriter (foldl applyCall w calls) = ResponseWriter w @ bodyWrites calls
     \<and> headerSet (foldl applyCall w calls)
     \<and> w_statusCode (foldl applyCall w calls) = w_statusCode w"
proof (induction calls arbitrary: w)
  case Nil
  then show ?case by simp
next
  case (Cons c cs)
  show ?case
  proof (cases c)
    case (CallWriteHeader code)
    with Cons show ?thesis
      by (simp add: maintenanceResponseWriter_WriteHeader_def)
  next
    case (CallWrite b)
    let ?w = "maintenanceResponseWriter_Write w b"
    from Cons.prems have hs: "headerSet ?w"
      and rw: "ResponseWriter ?w = ResponseWriter w @ [Write b]"
      and sc: "w_statusCode ?w = w_statusCode w"
      by (simp_all add: maintenanceResponseWriter_Write_def)
    from Cons.IH[OF hs] CallWrite rw sc show ?thesis by simp
  qed
qed

lemma Write_chunks_after_commit:
  "headerSet w \<Longrightarrow>
     ResponseWriter (foldl maintenanceResponseWriter_Write w chunks)
       = ResponseWriter w @ map Write chunks"
proof (induction chunks arbitrary: w)
  case Nil
  then show ?case by simp
next
  case (Cons b bs)
  let ?w = "maintenanceResponseWriter_Write w b"
  from Cons.prems have "headerSet ?w" and "ResponseWriter ?w = ResponseWriter w @ [Write b]"
    by (simp_all add: maintenanceResponseWriter_Write_def)
  with Cons.IH[of ?w] show ?case by simp
qed

section \<open>Serving the file\<close>



lemma serveMaintenanceFile_fields:
  "serveMaintenanceFile m fs rw = (m', rw', evs) \<Longrightarrow>
     maintenanceService m' = maintenanceService m
     \<and> maintenanceFilePath m' = maintenanceFilePath m
     \<and> maintenanceContent m' = maintenanceContent m
     \<and> statusCode m' = statusCode m"
  by (auto simp: serveMaintenanceFile_def Let_def split: prod.splits option.splits
      dest!: loadMaintenanceFile_fields)

lemma serveMaintenanceFile_bypass_fields:
  "serveMaintenanceFile m fs rw = (m', rw', evs) \<Longrightarrow>
     enabled m' = enabled m
     \<and> bypassFavicon m' = bypassFavicon m
     \<and> bypassPaths m' = bypassPaths m
     \<and> bypassHeader m' = bypassHeader m
     \<and> bypassHeaderValue m' = bypassHeaderValue m"
  by (auto simp: serveMaintenanceFile_def Let_def split: prod.splits option.splits
      dest!: loadMaintenanceFile_fields)

lemma serveMaintenanceFile_invocations:
  "serveMaintenanceFile m fs rw = (m', rw', evs) \<Longrightarrow> invocations evs = []"
  by (auto simp: serveMaintenanceFile_def invocations_append invocations_log Let_def
      split: prod.splits option.splits dest: loadMaintenanceFile_invocations)

text \<open>
  What the file branch writes, whichever way the load goes: headers, then the middleware's
  status code, then one body write.
\<close>

lemma serveMaintenanceFile_writes:
  "\<exists>hdrs b. committedStatus hdrs = Uncommitted
     \<and> fst (snd (serveMaintenanceFile m fs rw)) = rw @ hdrs @ [WriteHeader (statusCode m), Write b]"
proof (cases "loadMaintenanceFile fs m")
  case (fields r m' evs)
  from loadMaintenanceFile_fields[OF fields] have sc: "statusCode m' = statusCode m" by simp
  show ?thesis
  proof (cases r)
    case None
    let ?hdrs = "[HeaderSet ''Content-Type'' (contentType m'),
                  HeaderSet ''Cache-Control'' ''no-cache, no-store, must-revalidate'',
                  HeaderSet ''X-Maintenance-Mode'' ''true'']"
    from None fields sc
    have "fst (snd (serveMaintenanceFile m fs rw))
        = rw @ ?hdrs @ [WriteHeader (statusCode m),
             Write (case maintenanceFileContent m' of None \<Rightarrow> [] | Some c \<Rightarrow> c)]"
      by (simp add: serveMaintenanceFile_def)
    moreover have "committedStatus ?hdrs = Uncommitted" by simp
    ultimately show ?thesis by blast
  next
    case (Some err)
    let ?hdrs = "[HeaderSet ''X-Maintenance-Mode'' ''true'',
                  HeaderDel ''Content-Length'',
                  HeaderSet ''Content-Type'' ''text/plain; charset=utf-8'',
                  HeaderSet ''X-Content-Type-Options'' ''nosniff'']"
    from Some fields sc
    have "fst (snd (serveMaintenanceFile m fs rw))
        = rw @ ?hdrs @ [WriteHeader (statusCode m),
             Write (''Service Temporarily Unavailable'' @ [CHR 0x0A])]"
      by (simp add: serveMaintenanceFile_def http_Error_def)
    moreover have "committedStatus ?hdrs = Uncommitted" by simp
    ultimately show ?thesis by blast
  qed
qed

lemma serveMaintenanceFile_status:
  assumes "committedStatus rw = Uncommitted" and "200 \<le> statusCode m" and "statusCode m \<le> 999"
  shows "committedStatus (fst (snd (serveMaintenanceFile m fs rw))) = Committed (statusCode m)"
proof -
  from serveMaintenanceFile_writes[of m fs rw] obtain hdrs b where
    "committedStatus hdrs = Uncommitted"
    "fst (snd (serveMaintenanceFile m fs rw)) = rw @ hdrs @ [WriteHeader (statusCode m), Write b]"
    by blast
  with assms show ?thesis by (simp add: committedStatus_append)
qed

section \<open>The proxy branch\<close>

lemma ErrorHandler_invocations: "ErrorHandler m w = (w', evs) \<Longrightarrow> invocations evs = []"
  by (auto simp: ErrorHandler_def Let_def invocations_log)

lemma proxyToMaintenanceService_invocations:
  "proxyToMaintenanceService m rt h rw req = (h', rw', evs) \<Longrightarrow> invocations evs = []"
  by (auto simp: proxyToMaintenanceService_def ReverseProxy_ServeHTTP_def Let_def Request_Clone_def
      split: option.splits prod.splits round_trip.splits dest: ErrorHandler_invocations)

lemma proxyToMaintenanceService_rw:
  "maintenanceService m = Some target \<Longrightarrow>
   fst (snd (proxyToMaintenanceService m rt h rw req)) =
     rw @ (case rt of
             TransportError \<Rightarrow>
               [HeaderSet ''X-Maintenance-Mode'' ''true'', WriteHeader (statusCode m),
                Write ''Service temporarily unavailable'']
           | BackendResponse code hdrs chunks \<Rightarrow>
               map (\<lambda>(k, v). HeaderAdd k v) hdrs @ WriteHeader (statusCode m) # map Write chunks)"
proof (cases rt)
  case TransportError
  assume "maintenanceService m = Some target"
  with TransportError show ?thesis
    by (simp add: proxyToMaintenanceService_def ReverseProxy_ServeHTTP_def ErrorHandler_def
        Request_Clone_def Let_def maintenanceResponseWriter_WriteHeader_def
        maintenanceResponseWriter_Write_def split: prod.splits)
next
  case (BackendResponse code hdrs chunks)
  assume ms: "maintenanceService m = Some target"
  let ?w1 = "\<lparr> ResponseWriter = rw @ map (\<lambda>(k, v). HeaderAdd k v) hdrs,
               w_statusCode = statusCode m, headerSet = False \<rparr>"
  let ?w2 = "maintenanceResponseWriter_WriteHeader ?w1 code"
  have w2: "headerSet ?w2"
    "ResponseWriter ?w2 = rw @ map (\<lambda>(k, v). HeaderAdd k v) hdrs @ [WriteHeader (statusCode m)]"
    by (simp_all add: maintenanceResponseWriter_WriteHeader_def)
  from Write_chunks_after_commit[OF w2(1), of chunks] w2(2)
  have "ResponseWriter (foldl maintenanceResponseWriter_Write ?w2 chunks)
        = rw @ map (\<lambda>(k, v). HeaderAdd k v) hdrs @ WriteHeader (statusCode m) # map Write chunks"
    by simp
  with ms BackendResponse show ?thesis
    by (simp add: proxyToMaintenanceService_def ReverseProxy_ServeHTTP_def
        Request_Clone_def Let_def split: prod.splits)
qed

lemma proxyToMaintenanceService_status:
  "committedStatus rw = Uncommitted \<Longrightarrow> maintenanceService m = Some target \<Longrightarrow>
   200 \<le> statusCode m \<Longrightarrow> statusCode m \<le> 999 \<Longrightarrow>
     committedStatus (fst (snd (proxyToMaintenanceService m rt h rw req)))
       = Committed (statusCode m)"
  by (cases rt)
     (simp_all add: proxyToMaintenanceService_rw committedStatus_append committedStatus_HeaderAdd)

lemma proxyToMaintenanceService_frame:
  assumes "a < brk h"
  shows "requests (fst (proxyToMaintenanceService m rt h rw req)) a = requests h a"
    and "urls (fst (proxyToMaintenanceService m rt h rw req)) a = urls h a"
    and "headers (fst (proxyToMaintenanceService m rt h rw req)) a = headers h a"
  using assms
  by (auto simp: proxyToMaintenanceService_def Request_Clone_def Let_def
      split: option.splits prod.splits)

lemma proxyToMaintenanceService_forwards:
  assumes "maintenanceService m = Some target"
  shows "RoundTrip p \<in> set (snd (snd (proxyToMaintenanceService m rt h rw req))) \<Longrightarrow> p = brk h"
    and "RoundTrip (brk h) \<in> set (snd (snd (proxyToMaintenanceService m rt h rw req)))"
    and "requests (fst (proxyToMaintenanceService m rt h rw req)) (brk h)
           = (requests h req)\<lparr> req_URL := brk h, req_Header := brk h, req_Host := Host target \<rparr>"
    and "urls (fst (proxyToMaintenanceService m rt h rw req)) (brk h)
           = (urls h (req_URL (requests h req)))\<lparr> Host := Host target, Scheme := Scheme target \<rparr>"
    and "headers (fst (proxyToMaintenanceService m rt h rw req)) (brk h)
           = headers h (req_Header (requests h req))"
  using assms
  by (auto simp: proxyToMaintenanceService_def Request_Clone_def Let_def ReverseProxy_ServeHTTP_def
      ErrorHandler_def log_def
      split: option.splits prod.splits round_trip.splits if_splits)

lemma proxyToMaintenanceService_frame_result:
  "proxyToMaintenanceService m rt h rw req = (h', rw', evs) \<Longrightarrow> a < brk h \<Longrightarrow>
     requests h' a = requests h a \<and> urls h' a = urls h a \<and> headers h' a = headers h a"
  using proxyToMaintenanceService_frame[of a h m rt rw req] by simp

lemma proxyToMaintenanceService_forwarded:
  "RoundTrip p \<in> set (snd (snd (proxyToMaintenanceService m rt h rw req))) \<Longrightarrow>
     p = brk h
     \<and> req_URL (requests (fst (proxyToMaintenanceService m rt h rw req)) p) = brk h
     \<and> req_Header (requests (fst (proxyToMaintenanceService m rt h rw req)) p) = brk h"
proof (cases "maintenanceService m")
  case None
  assume "RoundTrip p \<in> set (snd (snd (proxyToMaintenanceService m rt h rw req)))"
  with None show ?thesis by (simp add: proxyToMaintenanceService_def)
next
  case (Some target)
  assume "RoundTrip p \<in> set (snd (snd (proxyToMaintenanceService m rt h rw req)))"
  then have "p = brk h"
    by (rule proxyToMaintenanceService_forwards(1)[OF Some])
  then show ?thesis
    by (simp add: proxyToMaintenanceService_forwards(3)[OF Some])
qed

section \<open>The dispatcher\<close>

lemma ServeHTTP_invocations:
  "invocations (result_events (ServeHTTP m fs rt h rw req)) =
     [if shouldBypass_spec m (requestPath h req) (requestHeader h req) then NextHandler
      else if maintenanceFilePath m \<noteq> '''' then ServeMaintenanceFile
      else if maintenanceContent m \<noteq> '''' then ServeMaintenanceContent
      else ProxyToMaintenanceService]"
proof (cases "matchBypassPath (bypassPaths m) (requestPath h req)")
  case None
  then have "\<not> (\<exists>p \<in> set (bypassPaths m). prefix p (requestPath h req))"
    by (simp add: matchBypassPath_None)
  with None show ?thesis
    by (auto simp: ServeHTTP_def result_events_def Let_def invocations_append invocations_log
        shouldBypass_spec_def requestPath_def requestHeader_def HasSuffix_suffix Header_Get_spec
        split: prod.splits
        dest: serveMaintenanceFile_invocations proxyToMaintenanceService_invocations)
next
  case (Some p)
  then have "\<exists>p \<in> set (bypassPaths m). prefix p (requestPath h req)"
    using matchBypassPath_None[of "bypassPaths m" "requestPath h req"] by simp
  with Some show ?thesis
    by (auto simp: ServeHTTP_def result_events_def Let_def invocations_append invocations_log
        shouldBypass_spec_def requestPath_def requestHeader_def)
qed

lemma ServeHTTP_fields:
  "maintenanceService (result_mb (ServeHTTP m fs rt h rw req)) = maintenanceService m
   \<and> maintenanceFilePath (result_mb (ServeHTTP m fs rt h rw req)) = maintenanceFilePath m
   \<and> maintenanceContent (result_mb (ServeHTTP m fs rt h rw req)) = maintenanceContent m
   \<and> statusCode (result_mb (ServeHTTP m fs rt h rw req)) = statusCode m"
  by (auto simp: ServeHTTP_def result_mb_def Let_def split: prod.splits option.splits
      dest!: serveMaintenanceFile_fields)

lemma ServeHTTP_bypass_fields:
  "enabled (result_mb (ServeHTTP m fs rt h rw req)) = enabled m
   \<and> bypassFavicon (result_mb (ServeHTTP m fs rt h rw req)) = bypassFavicon m
   \<and> bypassPaths (result_mb (ServeHTTP m fs rt h rw req)) = bypassPaths m
   \<and> bypassHeader (result_mb (ServeHTTP m fs rt h rw req)) = bypassHeader m
   \<and> bypassHeaderValue (result_mb (ServeHTTP m fs rt h rw req)) = bypassHeaderValue m"
  by (auto simp: ServeHTTP_def result_mb_def Let_def split: prod.splits option.splits
      dest!: serveMaintenanceFile_bypass_fields)

lemma ServeHTTP_pass_through:
  assumes "shouldBypass_spec m (requestPath h req) (requestHeader h req)"
  shows "result_mb (ServeHTTP m fs rt h rw req) = m"
    and "result_heap (ServeHTTP m fs rt h rw req) = h"
    and "result_rw (ServeHTTP m fs rt h rw req) = rw"
    and "Invoke NextHandler req \<in> set (result_events (ServeHTTP m fs rt h rw req))"
proof -
  have "(\<not> enabled m) \<or> (bypassFavicon m \<and> HasSuffix (requestPath h req) ''/favicon.ico'')
      \<or> matchBypassPath (bypassPaths m) (requestPath h req) \<noteq> None
      \<or> Header_Get (requestHeader h req) (bypassHeader m) = bypassHeaderValue m"
    using assms
    by (auto simp: shouldBypass_spec_def matchBypassPath_None HasSuffix_suffix Header_Get_spec
        split: if_splits)
  then show "result_mb (ServeHTTP m fs rt h rw req) = m"
    and "result_heap (ServeHTTP m fs rt h rw req) = h"
    and "result_rw (ServeHTTP m fs rt h rw req) = rw"
    and "Invoke NextHandler req \<in> set (result_events (ServeHTTP m fs rt h rw req))"
    by (auto simp: ServeHTTP_def result_mb_def result_heap_def result_rw_def result_events_def
        Let_def requestPath_def requestHeader_def split: option.splits)
qed

lemma ServeHTTP_maintenance_no_next:
  assumes "\<not> shouldBypass_spec m (requestPath h req) (requestHeader h req)"
  shows "Invoke NextHandler r \<notin> set (result_events (ServeHTTP m fs rt h rw req))"
proof
  assume "Invoke NextHandler r \<in> set (result_events (ServeHTTP m fs rt h rw req))"
  then have "NextHandler \<in> set (invocations (result_events (ServeHTTP m fs rt h rw req)))"
    using Invoke_mem_invocations by blast
  with assms show False by (simp add: ServeHTTP_invocations split: if_splits)
qed

lemma ServeHTTP_maintenance_status:
  assumes "committedStatus rw = Uncommitted"
    and "\<not> shouldBypass_spec m (requestPath h req) (requestHeader h req)"
    and "hasContentSource m"
    and lo: "200 \<le> statusCode m" and hi: "statusCode m \<le> 999"
  shows "committedStatus (result_rw (ServeHTTP m fs rt h rw req)) = Committed (statusCode m)"
proof -
  let ?rw1 = "rw @ [HeaderSet ''Retry-After'' ''3600'', HeaderSet ''X-Maintenance-Mode'' ''true'']"
  have rw1: "committedStatus ?rw1 = Uncommitted"
    using assms(1) by (simp add: committedStatus_append)
  have nomatch: "matchBypassPath (bypassPaths m) (requestPath h req) = None"
    using assms(2) by (auto simp: matchBypassPath_None shouldBypass_spec_def split: if_splits)
  have guards: "enabled m"
    "\<not> (bypassFavicon m \<and> HasSuffix (requestPath h req) ''/favicon.ico'')"
    "Header_Get (requestHeader h req) (bypassHeader m) \<noteq> bypassHeaderValue m"
    using assms(2)
    by (auto simp: shouldBypass_spec_def HasSuffix_suffix Header_Get_spec split: if_splits)
  show ?thesis
  proof (cases "maintenanceFilePath m \<noteq> ''''")
    case True
    with guards nomatch serveMaintenanceFile_status[OF rw1 lo hi, of fs] show ?thesis
      by (auto simp: ServeHTTP_def result_rw_def Let_def requestPath_def requestHeader_def
          split: prod.splits)
  next
    case nofile: False
    show ?thesis
    proof (cases "maintenanceContent m \<noteq> ''''")
      case True
      with nofile guards nomatch assms(1) lo hi show ?thesis
        by (auto simp: ServeHTTP_def result_rw_def Let_def requestPath_def requestHeader_def
            serveMaintenanceContent_def committedStatus_append)
    next
      case False
      with nofile assms(3) obtain target where "maintenanceService m = Some target"
        by (auto simp: hasContentSource_def)
      from proxyToMaintenanceService_status[OF rw1 this lo hi, of rt h req] False nofile guards nomatch
      show ?thesis
        by (auto simp: ServeHTTP_def result_rw_def Let_def requestPath_def requestHeader_def
            split: prod.splits)
    qed
  qed
qed

lemma ServeHTTP_frame:
  "a < brk h \<Longrightarrow>
     requests (result_heap (ServeHTTP m fs rt h rw req)) a = requests h a
     \<and> urls (result_heap (ServeHTTP m fs rt h rw req)) a = urls h a
     \<and> headers (result_heap (ServeHTTP m fs rt h rw req)) a = headers h a"
  by (auto simp: ServeHTTP_def result_heap_def Let_def split: option.splits prod.splits
      dest: proxyToMaintenanceService_frame_result)

lemma ServeHTTP_maintenance_rw:
  assumes "\<not> shouldBypass_spec m (requestPath h req) (requestHeader h req)"
  shows "result_rw (ServeHTTP m fs rt h rw req) =
     (if maintenanceFilePath m \<noteq> '''' then
        fst (snd (serveMaintenanceFile m fs
          (rw @ [HeaderSet ''Retry-After'' ''3600'', HeaderSet ''X-Maintenance-Mode'' ''true''])))
      else if maintenanceContent m \<noteq> '''' then
        serveMaintenanceContent m
          (rw @ [HeaderSet ''Retry-After'' ''3600'', HeaderSet ''X-Maintenance-Mode'' ''true''])
      else
        fst (snd (proxyToMaintenanceService m rt h
          (rw @ [HeaderSet ''Retry-After'' ''3600'', HeaderSet ''X-Maintenance-Mode'' ''true'']) req)))"
proof -
  have nomatch: "matchBypassPath (bypassPaths m) (requestPath h req) = None"
    using assms by (auto simp: matchBypassPath_None shouldBypass_spec_def split: if_splits)
  have guards: "enabled m"
    "\<not> (bypassFavicon m \<and> HasSuffix (requestPath h req) ''/favicon.ico'')"
    "Header_Get (requestHeader h req) (bypassHeader m) \<noteq> bypassHeaderValue m"
    using assms
    by (auto simp: shouldBypass_spec_def HasSuffix_suffix Header_Get_spec split: if_splits)
  from nomatch guards show ?thesis
    by (auto simp: ServeHTTP_def result_rw_def Let_def requestPath_def requestHeader_def
        split: prod.splits)
qed

section \<open>Construction\<close>

lemma New_no_source:
  "MaintenanceFilePath config = '''' \<Longrightarrow> MaintenanceContent config = '''' \<Longrightarrow>
   MaintenanceService config = '''' \<Longrightarrow> fst (New url_Parse fs config nm) = Inl ErrNoSource"
  by (simp add: New_def Let_def)

lemma New_fields:
  assumes "fst (New url_Parse fs config nm) = Inr m"
  shows "statusCode m = resolvedStatusCode config"
    and "maintenanceFilePath m = MaintenanceFilePath config"
    and "maintenanceContent m = MaintenanceContent config"
    and "hasContentSource m"
    and "enabled m = Enabled config"
    and "bypassPaths m = BypassPaths config"
    and "bypassFavicon m = BypassFavicon config"
    and "bypassHeader m = BypassHeader config"
    and "bypassHeaderValue m = BypassHeaderValue config"
  using assms
  by (auto simp: New_def Let_def resolvedStatusCode_def hasContentSource_def
      split: if_splits prod.splits option.splits sum.splits
      dest!: loadMaintenanceFile_fields)



lemma example_New_file:
  "fst (New example_url_Parse example_fs example_config_file ''maintenance-test'') = Inr example_m_file"
  by (simp add: New_def loadMaintenanceFile_def example_fs_def file_system_with_def
      example_config_file_def CreateConfig_def example_m_file_def example_path_def
      LogLevelError_def Let_def)

lemma example_New_remote:
  "fst (New example_url_Parse example_fs example_config_remote ''maintenance-test'') = Inr example_m_remote"
  by (simp add: New_def example_url_Parse_def wrap64_def
      example_config_remote_def CreateConfig_def example_m_file_def example_m_remote_def
      LogLevelError_def Let_def)


lemma example_New_file_and_inline:
  "fst (New example_url_Parse example_fs example_config_file_and_inline ''maintenance-test'')
     = Inr example_m_file_and_inline"
  by (simp add: New_def loadMaintenanceFile_def example_fs_def file_system_with_def
      example_config_file_and_inline_def CreateConfig_def example_m_file_and_inline_def
      example_m_file_def example_path_def LogLevelError_def Let_def)


section \<open>Construction, then a request\<close>




section \<open>Claims about the file cache\<close>

text \<open>
  C9. Load is atomic on failure: whenever \<open>loadMaintenanceFile\<close> returns an error (the
  stat failed, the read failed or the file was empty), the cached bytes and the cached
  modification time are what they were before the call; the whole receiver is.
\<close>

theorem loadMaintenanceFile_atomic_on_failure:
  "fst (loadMaintenanceFile fs m) \<noteq> None \<Longrightarrow>
     maintenanceFileContent (fst (snd (loadMaintenanceFile fs m))) = maintenanceFileContent m
     \<and> maintenanceFileLastMod (fst (snd (loadMaintenanceFile fs m))) = maintenanceFileLastMod m
     \<and> fst (snd (loadMaintenanceFile fs m)) = m"
  by (auto simp: loadMaintenanceFile_def split: sum.splits if_splits)

theorem loadMaintenanceFile_atomic_on_failure_witness:
  "fst (loadMaintenanceFile example_fs_emptied example_m_file) \<noteq> None
   \<and> maintenanceFileContent (fst (snd (loadMaintenanceFile example_fs_emptied example_m_file)))
       = Some ''<html>down</html>''
   \<and> maintenanceFileLastMod (fst (snd (loadMaintenanceFile example_fs_emptied example_m_file))) = 100
   \<and> fst (snd (loadMaintenanceFile example_fs_emptied example_m_file)) = example_m_file"
proof -
  have failed: "fst (loadMaintenanceFile example_fs_emptied example_m_file) \<noteq> None"
    by (simp add: loadMaintenanceFile_def example_fs_emptied_def file_system_with_def
        example_m_file_def)
  from loadMaintenanceFile_atomic_on_failure[OF failed] failed show ?thesis
    by (simp add: example_m_file_def)
qed

text \<open>
  C8. Reload is idempotent. In a state that holds cached content, a load while the file's
  modification time on disk is not after the cached one returns nil, makes the stat call
  and no read, and leaves the receiver (so the cached content and the cached modification
  time) unchanged. In particular a load that succeeded, repeated over the same file
  system, does so.
\<close>

theorem loadMaintenanceFile_idempotent:
  "(maintenanceFileContent m = Some c \<and> os_Stat fs (maintenanceFilePath m) = Inr modTime
      \<and> \<not> modTime > maintenanceFileLastMod m
    \<longrightarrow> loadMaintenanceFile fs m = (None, m, [OsStat (maintenanceFilePath m)]))
   \<and> (fst (loadMaintenanceFile fs m0) = None
    \<longrightarrow> loadMaintenanceFile fs (fst (snd (loadMaintenanceFile fs m0)))
          = (None, fst (snd (loadMaintenanceFile fs m0)), [OsStat (maintenanceFilePath m0)]))"
proof (rule conjI; rule impI)
  assume "maintenanceFileContent m = Some c \<and> os_Stat fs (maintenanceFilePath m) = Inr modTime
      \<and> \<not> modTime > maintenanceFileLastMod m"
  then show "loadMaintenanceFile fs m = (None, m, [OsStat (maintenanceFilePath m)])"
    by (simp add: loadMaintenanceFile_def)
next
  assume ok: "fst (loadMaintenanceFile fs m0) = None"
  obtain m1 evs where l: "loadMaintenanceFile fs m0 = (None, m1, evs)"
    using ok by (cases "loadMaintenanceFile fs m0") auto
  from loadMaintenanceFile_success[OF l] obtain c1 t1 where
    "maintenanceFileContent m1 = Some c1" "os_Stat fs (maintenanceFilePath m0) = Inr t1"
    "\<not> t1 > maintenanceFileLastMod m1" "maintenanceFilePath m1 = maintenanceFilePath m0"
    by auto
  then have "loadMaintenanceFile fs m1 = (None, m1, [OsStat (maintenanceFilePath m0)])"
    by (simp add: loadMaintenanceFile_def)
  with l show "loadMaintenanceFile fs (fst (snd (loadMaintenanceFile fs m0)))
          = (None, fst (snd (loadMaintenanceFile fs m0)), [OsStat (maintenanceFilePath m0)])"
    by simp
qed

theorem loadMaintenanceFile_idempotent_witness:
  "maintenanceFileContent example_m_file = Some ''<html>down</html>''
   \<and> os_Stat example_fs (maintenanceFilePath example_m_file) = Inr 100
   \<and> \<not> 100 > maintenanceFileLastMod example_m_file
   \<and> loadMaintenanceFile example_fs example_m_file = (None, example_m_file, [OsStat example_path])
   \<and> loadMaintenanceFile example_fs example_m_unloaded
       = (None, example_m_file, [OsStat example_path, OsReadFile example_path])
   \<and> loadMaintenanceFile example_fs (fst (snd (loadMaintenanceFile example_fs example_m_unloaded)))
       = (None, example_m_file, [OsStat example_path])"
proof -
  have first: "loadMaintenanceFile example_fs example_m_unloaded
       = (None, example_m_file, [OsStat example_path, OsReadFile example_path])"
    by (simp add: loadMaintenanceFile_def example_fs_def file_system_with_def log_def
        example_m_unloaded_def example_m_file_def LogLevelInfo_def)
  have facts: "maintenanceFileContent example_m_file = Some ''<html>down</html>''"
    "os_Stat example_fs (maintenanceFilePath example_m_file) = Inr 100"
    "\<not> 100 > maintenanceFileLastMod example_m_file"
    "maintenanceFilePath example_m_file = example_path"
    "maintenanceFilePath example_m_unloaded = example_path"
    by (simp_all add: example_fs_def file_system_with_def example_m_file_def
        example_m_unloaded_def)
  from loadMaintenanceFile_idempotent[of example_m_file "''<html>down</html>''" example_fs 100
      example_m_unloaded] first facts
  show ?thesis by simp
qed

section \<open>Claims about the status-overriding writer\<close>

text \<open>
  C5. Take a fresh \<open>maintenanceResponseWriter\<close> with status code \<open>S\<close> over a response
  writer and make any sequence of \<open>WriteHeader\<close> and \<open>Write\<close> calls on it. The wrapped
  writer receives nothing for the empty sequence; otherwise it receives exactly one
  \<open>WriteHeader\<close>, with \<open>S\<close>, before anything else, and then one \<open>Write\<close> for each
  \<open>Write\<close> call, with its bytes, in order. As this holds for every sequence, hence for
  every prefix of one, the commit is made by the first call, be it a \<open>WriteHeader\<close> or a
  \<open>Write\<close>, and every later \<open>WriteHeader\<close> passes nothing on.
\<close>

theorem maintenanceResponseWriter_commits_once:
  "ResponseWriter
     (foldl applyCall \<lparr> ResponseWriter = rw, w_statusCode = S, headerSet = False \<rparr> calls)
     = rw @ (if calls = [] then [] else WriteHeader S # bodyWrites calls)
   \<and> statusCommits (ResponseWriter
        (foldl applyCall \<lparr> ResponseWriter = rw, w_statusCode = S, headerSet = False \<rparr> calls))
     = statusCommits rw @ (if calls = [] then [] else [S])"
proof (cases calls)
  case Nil
  then show ?thesis by simp
next
  case (Cons c cs)
  let ?w0 = "\<lparr> ResponseWriter = rw, w_statusCode = S, headerSet = False \<rparr>"
  have first: "headerSet (applyCall ?w0 c)
      \<and> ResponseWriter (applyCall ?w0 c) = rw @ WriteHeader S # bodyWrites [c]"
    by (cases c)
       (simp_all add: maintenanceResponseWriter_WriteHeader_def maintenanceResponseWriter_Write_def)
  with applyCalls_after_commit[of "applyCall ?w0 c" cs] Cons
  have "ResponseWriter (foldl applyCall ?w0 calls) = rw @ WriteHeader S # bodyWrites calls"
    by (cases c) simp_all
  with Cons show ?thesis
    by (simp add: statusCommits_append statusCommits_bodyWrites)
qed

theorem maintenanceResponseWriter_commits_once_witness:
  "ResponseWriter
     (foldl applyCall \<lparr> ResponseWriter = [], w_statusCode = 503, headerSet = False \<rparr>
        [CallWrite ''first'', CallWriteHeader 200, CallWrite '' second'', CallWriteHeader 404])
     = [WriteHeader 503, Write ''first'', Write '' second'']
   \<and> statusCommits (ResponseWriter
        (foldl applyCall \<lparr> ResponseWriter = [], w_statusCode = 503, headerSet = False \<rparr>
           [CallWriteHeader 200, CallWrite ''test'']))
     = [503]"
  using maintenanceResponseWriter_commits_once[of "[]" 503
      "[CallWrite ''first'', CallWriteHeader 200, CallWrite '' second'', CallWriteHeader 404]"]
    maintenanceResponseWriter_commits_once[of "[]" 503 "[CallWriteHeader 200, CallWrite ''test'']"]
  by simp

section \<open>Claims about the dispatcher\<close>

text \<open>
  C6. Every call of \<open>ServeHTTP\<close> invokes exactly one handler, once: the list of the
  handlers it invokes has one element, which is the next handler or one of the three
  maintenance branches (file, inline, remote). So it never invokes both the next handler
  and a maintenance branch, and never none.
\<close>

theorem ServeHTTP_invokes_exactly_one:
  "\<exists>callee. invocations (result_events (ServeHTTP m fs rt h rw req)) = [callee]"
  by (simp add: ServeHTTP_invocations)

theorem ServeHTTP_invokes_exactly_one_witness:
  "invocations (result_events (ServeHTTP example_m_file example_fs TransportError example_heap [] 0))
     = [ServeMaintenanceFile]
   \<and> invocations (result_events
        (ServeHTTP example_m_health example_fs TransportError example_heap_health [] 0))
     = [NextHandler]
   \<and> invocations (result_events
        (ServeHTTP example_m_remote example_fs TransportError example_heap [] 0))
     = [ProxyToMaintenanceService]"
proof -
  have "invocations (result_events
      (ServeHTTP example_m_file example_fs TransportError example_heap [] 0)) = [ServeMaintenanceFile]"
    using ServeHTTP_invokes_exactly_one[of example_m_file example_fs TransportError example_heap "[]" 0]
    by (simp add: ServeHTTP_invocations shouldBypass_spec_def example_m_file_def example_heap_def
        requestPath_def requestHeader_def headerValue_spec_def suffix_def example_path_def)
  moreover have "invocations (result_events
      (ServeHTTP example_m_health example_fs TransportError example_heap_health [] 0)) = [NextHandler]"
    by (simp add: ServeHTTP_invocations shouldBypass_spec_def example_m_health_def
        example_m_file_def example_heap_health_def example_heap_def
        requestPath_def requestHeader_def headerValue_spec_def suffix_def)
  moreover have "invocations (result_events
      (ServeHTTP example_m_remote example_fs TransportError example_heap [] 0))
      = [ProxyToMaintenanceService]"
    by (simp add: ServeHTTP_invocations shouldBypass_spec_def example_m_remote_def
        example_m_file_def example_heap_def
        requestPath_def requestHeader_def headerValue_spec_def suffix_def)
  ultimately show ?thesis by simp
qed

text \<open>
  C4. The decision of \<open>ServeHTTP\<close> is the specification's ordered \<open>shouldBypass\<close>:
  for every middleware, request, file system, backend answer and response writer, the
  request is handed to the next handler exactly when \<open>shouldBypass_spec\<close> holds of the
  middleware's bypass settings, the request's path and the request's headers. In
  particular a request whose path starts with a configured prefix is handed on. A request
  that is handed on is the only invocation of the call and leaves the response writer,
  the heap and the middleware as they were. The bypass settings of the middleware are
  those of the configuration it was built from, and no request changes them.
\<close>

theorem ServeHTTP_bypass_decision:
  "(Invoke NextHandler req \<in> set (result_events (ServeHTTP m fs rt h rw req)))
      = shouldBypass_spec m (requestPath h req) (requestHeader h req)
   \<and> ((\<exists>p \<in> set (bypassPaths m). prefix p (requestPath h req))
        \<longrightarrow> Invoke NextHandler req \<in> set (result_events (ServeHTTP m fs rt h rw req)))
   \<and> (shouldBypass_spec m (requestPath h req) (requestHeader h req)
        \<longrightarrow> invocations (result_events (ServeHTTP m fs rt h rw req)) = [NextHandler]
            \<and> result_rw (ServeHTTP m fs rt h rw req) = rw
            \<and> result_heap (ServeHTTP m fs rt h rw req) = h
            \<and> result_mb (ServeHTTP m fs rt h rw req) = m)
   \<and> (fst (New url_Parse fs0 config nm) = Inr m0
        \<longrightarrow> enabled m0 = Enabled config
            \<and> bypassFavicon m0 = BypassFavicon config
            \<and> bypassPaths m0 = BypassPaths config
            \<and> bypassHeader m0 = BypassHeader config
            \<and> bypassHeaderValue m0 = BypassHeaderValue config)
   \<and> enabled (result_mb (ServeHTTP m fs rt h rw req)) = enabled m
   \<and> bypassFavicon (result_mb (ServeHTTP m fs rt h rw req)) = bypassFavicon m
   \<and> bypassPaths (result_mb (ServeHTTP m fs rt h rw req)) = bypassPaths m
   \<and> bypassHeader (result_mb (ServeHTTP m fs rt h rw req)) = bypassHeader m
   \<and> bypassHeaderValue (result_mb (ServeHTTP m fs rt h rw req)) = bypassHeaderValue m"
proof -
  have prefix_bypass: "shouldBypass_spec m (requestPath h req) (requestHeader h req)"
    if "\<exists>p \<in> set (bypassPaths m). prefix p (requestPath h req)"
    using that by (simp add: shouldBypass_spec_def)
  have decision: "(Invoke NextHandler req \<in> set (result_events (ServeHTTP m fs rt h rw req)))
      = shouldBypass_spec m (requestPath h req) (requestHeader h req)"
    using ServeHTTP_pass_through(4)[of m h req fs rt rw]
      ServeHTTP_maintenance_no_next[of m h req req fs rt rw]
    by blast
  have settings: "enabled m0 = Enabled config \<and> bypassFavicon m0 = BypassFavicon config
      \<and> bypassPaths m0 = BypassPaths config \<and> bypassHeader m0 = BypassHeader config
      \<and> bypassHeaderValue m0 = BypassHeaderValue config"
    if "fst (New url_Parse fs0 config nm) = Inr m0"
    using New_fields(5-9)[OF that] by simp
  show ?thesis
    using decision prefix_bypass settings ServeHTTP_pass_through(1-3)[of m h req fs rt rw]
      ServeHTTP_bypass_fields[of m fs rt h rw req]
    by (simp add: ServeHTTP_invocations)
qed

theorem ServeHTTP_bypass_decision_witness:
  "(\<exists>p \<in> set (bypassPaths example_m_health). prefix p (requestPath example_heap_health 0))
   \<and> shouldBypass_spec example_m_health (requestPath example_heap_health 0)
       (requestHeader example_heap_health 0)
   \<and> Invoke NextHandler 0 \<in> set (result_events
       (ServeHTTP example_m_health example_fs TransportError example_heap_health [] 0))
   \<and> result_rw (ServeHTTP example_m_health example_fs TransportError example_heap_health [] 0) = []
   \<and> \<not> shouldBypass_spec example_m_file (requestPath example_heap 0) (requestHeader example_heap 0)
   \<and> Invoke NextHandler 0 \<notin> set (result_events
       (ServeHTTP example_m_file example_fs TransportError example_heap [] 0))
   \<and> fst (New example_url_Parse example_fs example_config_file ''maintenance-test'')
       = Inr example_m_file
   \<and> bypassHeader example_m_file = BypassHeader example_config_file"
proof -
  have p: "\<exists>p \<in> set (bypassPaths example_m_health). prefix p (requestPath example_heap_health 0)"
    by (simp add: example_m_health_def example_m_file_def example_heap_health_def example_heap_def
        requestPath_def)
  have n: "\<not> shouldBypass_spec example_m_file (requestPath example_heap 0) (requestHeader example_heap 0)"
    by (simp add: shouldBypass_spec_def example_m_file_def example_heap_def requestPath_def
        requestHeader_def headerValue_spec_def suffix_def)
  have b: "shouldBypass_spec example_m_health (requestPath example_heap_health 0)
      (requestHeader example_heap_health 0)"
    using p by (simp add: shouldBypass_spec_def)
  show ?thesis
    using p n b example_New_file
      ServeHTTP_bypass_decision[where req = 0 and m = example_m_health and fs = example_fs
        and rt = TransportError and h = example_heap_health and rw = "[]"]
      ServeHTTP_bypass_decision[where req = 0 and m = example_m_file and fs = example_fs
        and rt = TransportError and h = example_heap and rw = "[]"
        and url_Parse = example_url_Parse and ?fs0.0 = example_fs and config = example_config_file
        and nm = "''maintenance-test''" and ?m0.0 = example_m_file]
    by simp
qed

text \<open>
  C3, as claimed: for every configuration and every request in which no bypass rule
  fires, the status code committed to the client is the configured status code. It does
  not hold for every configuration. \<open>New\<close> takes any status code but 0 as it is. With the
  configured code 103 the inline branch gives 103 to \<open>WriteHeader\<close>, which goes out as an
  informational response, and the body write that follows commits 200. With the
  configured code 42 the \<open>WriteHeader\<close> panics and the client gets no status line.
\<close>

theorem ServeHTTP_status_code_counterexample:
  "fst (New example_url_Parse example_fs (example_config_status 103) ''maintenance-test'')
     = Inr (example_m_status 103)
   \<and> statusCode (example_m_status 103) = 103
   \<and> \<not> shouldBypass_spec (example_m_status 103) (requestPath example_heap 0)
         (requestHeader example_heap 0)
   \<and> committedStatus (result_rw
         (ServeHTTP (example_m_status 103) example_fs example_rt example_heap [] 0))
       = Committed 200
   \<and> fst (New example_url_Parse example_fs (example_config_status 42) ''maintenance-test'')
       = Inr (example_m_status 42)
   \<and> statusCode (example_m_status 42) = 42
   \<and> \<not> shouldBypass_spec (example_m_status 42) (requestPath example_heap 0)
         (requestHeader example_heap 0)
   \<and> committedStatus (result_rw
         (ServeHTTP (example_m_status 42) example_fs example_rt example_heap [] 0))
       = Aborted"
proof -
  have new: "fst (New example_url_Parse example_fs (example_config_status code) ''maintenance-test'')
      = Inr (example_m_status code)" if "code \<noteq> 0" for code
    using that
    by (simp add: New_def example_config_status_def CreateConfig_def example_m_status_def
        example_m_file_def LogLevelError_def Let_def)
  have nb: "\<not> shouldBypass_spec (example_m_status code) (requestPath example_heap 0)
      (requestHeader example_heap 0)" for code
    by (simp add: shouldBypass_spec_def example_m_status_def example_m_file_def example_heap_def
        requestPath_def requestHeader_def headerValue_spec_def suffix_def)
  have rw: "result_rw (ServeHTTP (example_m_status code) example_fs example_rt example_heap [] 0)
      = [HeaderSet ''Retry-After'' ''3600'', HeaderSet ''X-Maintenance-Mode'' ''true'',
         HeaderSet ''Content-Type'' ''text/html; charset=utf-8'',
         HeaderSet ''Cache-Control'' ''no-cache, no-store, must-revalidate'',
         HeaderSet ''X-Maintenance-Mode'' ''true'',
         WriteHeader code, Write ''<html>down</html>'']" for code
    using nb[of code]
    by (simp add: ServeHTTP_maintenance_rw serveMaintenanceContent_def example_m_status_def
        example_m_file_def)
  have sc: "statusCode (example_m_status code) = code" for code
    by (simp add: example_m_status_def)
  from new[of 103] new[of 42] nb[of 103] nb[of 42] sc[of 103] sc[of 42] show ?thesis
    by (simp add: rw)
qed

text \<open>
  C3, amended. For every middleware whose status code lies from 200 to 999 and every
  request in which no bypass rule fires, the status committed on a response writer on
  which nothing was committed before is the middleware's status code, whichever of the
  three content sources serves the response, whatever the file system answers (the file
  branch may fail) and whatever the backend answers (a 200, any other code, a transport
  error). The middleware's status code is the configured one, 503 standing in for 0: that
  is how \<open>New\<close> sets it and no request changes it. The middleware is one with a content
  source, as every middleware that \<open>New\<close> returns is and stays.
\<close>

theorem ServeHTTP_maintenance_status_code:
  "(hasContentSource m \<and> committedStatus rw = Uncommitted
      \<and> \<not> shouldBypass_spec m (requestPath h req) (requestHeader h req)
      \<and> 200 \<le> statusCode m \<and> statusCode m \<le> 999
     \<longrightarrow> committedStatus (result_rw (ServeHTTP m fs rt h rw req)) = Committed (statusCode m))
   \<and> (fst (New url_Parse fs0 config nm) = Inr m0
     \<longrightarrow> hasContentSource m0 \<and> statusCode m0 = resolvedStatusCode config)
   \<and> (hasContentSource m
     \<longrightarrow> hasContentSource (result_mb (ServeHTTP m fs rt h rw req))
         \<and> statusCode (result_mb (ServeHTTP m fs rt h rw req)) = statusCode m)"
proof (intro conjI impI)
  assume "hasContentSource m \<and> committedStatus rw = Uncommitted
      \<and> \<not> shouldBypass_spec m (requestPath h req) (requestHeader h req)
      \<and> 200 \<le> statusCode m \<and> statusCode m \<le> 999"
  then show "committedStatus (result_rw (ServeHTTP m fs rt h rw req)) = Committed (statusCode m)"
    by (simp add: ServeHTTP_maintenance_status)
next
  assume "fst (New url_Parse fs0 config nm) = Inr m0"
  then show "hasContentSource m0" and "statusCode m0 = resolvedStatusCode config"
    by (rule New_fields)+
next
  assume "hasContentSource m"
  then show "hasContentSource (result_mb (ServeHTTP m fs rt h rw req))"
    using ServeHTTP_fields[of m fs rt h rw req] by (simp add: hasContentSource_def)
next
  show "statusCode (result_mb (ServeHTTP m fs rt h rw req)) = statusCode m"
    using ServeHTTP_fields[of m fs rt h rw req] by simp
qed

theorem ServeHTTP_maintenance_status_code_witness:
  "hasContentSource example_m_remote \<and> hasContentSource example_m_file
   \<and> committedStatus [] = Uncommitted
   \<and> \<not> shouldBypass_spec example_m_remote (requestPath example_heap 0) (requestHeader example_heap 0)
   \<and> \<not> shouldBypass_spec example_m_file (requestPath example_heap 0) (requestHeader example_heap 0)
   \<and> 200 \<le> statusCode example_m_remote \<and> statusCode example_m_remote \<le> 999
   \<and> 200 \<le> statusCode example_m_file \<and> statusCode example_m_file \<le> 999
   \<and> committedStatus (result_rw (ServeHTTP example_m_remote example_fs
        (BackendResponse 200 [(''Content-Type'', ''text/html'')] [''<html>'', ''ok</html>''])
        example_heap [] 0)) = Committed 503
   \<and> committedStatus (result_rw (ServeHTTP example_m_file example_fs_deleted TransportError
        example_heap [] 0)) = Committed 503
   \<and> fst (New example_url_Parse example_fs example_config_remote ''maintenance-test'')
       = Inr example_m_remote
   \<and> statusCode example_m_remote = resolvedStatusCode example_config_remote"
proof -
  have src: "hasContentSource example_m_remote" "hasContentSource example_m_file"
    by (simp_all add: hasContentSource_def example_m_remote_def example_m_file_def example_path_def)
  have nb: "\<not> shouldBypass_spec example_m_remote (requestPath example_heap 0) (requestHeader example_heap 0)"
    "\<not> shouldBypass_spec example_m_file (requestPath example_heap 0) (requestHeader example_heap 0)"
    by (simp_all add: shouldBypass_spec_def example_m_remote_def example_m_file_def example_heap_def
        requestPath_def requestHeader_def headerValue_spec_def suffix_def)
  have sc: "statusCode example_m_remote = 503" "statusCode example_m_file = 503"
    by (simp_all add: example_m_remote_def example_m_file_def)
  from src nb sc example_New_remote
    ServeHTTP_maintenance_status_code[of example_m_remote "[]" example_heap 0 example_fs
      "BackendResponse 200 [(''Content-Type'', ''text/html'')] [''<html>'', ''ok</html>'']"
      example_url_Parse example_fs example_config_remote "''maintenance-test''" example_m_remote]
    ServeHTTP_maintenance_status_code[of example_m_file "[]" example_heap 0 example_fs_deleted
      TransportError]
  show ?thesis by simp
qed

section \<open>Claims about the proxied request\<close>

text \<open>
  C7. Let the caller's request, its URL and its header map be allocated objects of the
  heap. When \<open>proxyToMaintenanceService\<close> returns (and when \<open>ServeHTTP\<close> does, in any mode),
  the request object, hence its \<open>Host\<close> field, its URL object, hence scheme, host and path,
  and its header map are what they were before the call. The request that goes on the round
  trip is another object, with a URL object and a header map of its own.
\<close>

theorem proxyToMaintenanceService_leaves_request:
  assumes "req < brk h" and "req_URL (requests h req) < brk h"
    and "req_Header (requests h req) < brk h"
  shows "requests (fst (proxyToMaintenanceService m rt h rw req)) req = requests h req
     \<and> urls (fst (proxyToMaintenanceService m rt h rw req)) (req_URL (requests h req))
         = urls h (req_URL (requests h req))
     \<and> headers (fst (proxyToMaintenanceService m rt h rw req)) (req_Header (requests h req))
         = headers h (req_Header (requests h req))
     \<and> (\<forall>p. RoundTrip p \<in> set (snd (snd (proxyToMaintenanceService m rt h rw req)))
          \<longrightarrow> p \<noteq> req
              \<and> req_URL (requests (fst (proxyToMaintenanceService m rt h rw req)) p)
                  \<noteq> req_URL (requests h req)
              \<and> req_Header (requests (fst (proxyToMaintenanceService m rt h rw req)) p)
                  \<noteq> req_Header (requests h req))
     \<and> requests (result_heap (ServeHTTP m fs rt h rw0 req)) req = requests h req
     \<and> urls (result_heap (ServeHTTP m fs rt h rw0 req)) (req_URL (requests h req))
         = urls h (req_URL (requests h req))
     \<and> headers (result_heap (ServeHTTP m fs rt h rw0 req)) (req_Header (requests h req))
         = headers h (req_Header (requests h req))"
proof -
  have fwd: "\<forall>p. RoundTrip p \<in> set (snd (snd (proxyToMaintenanceService m rt h rw req)))
          \<longrightarrow> p \<noteq> req
              \<and> req_URL (requests (fst (proxyToMaintenanceService m rt h rw req)) p)
                  \<noteq> req_URL (requests h req)
              \<and> req_Header (requests (fst (proxyToMaintenanceService m rt h rw req)) p)
                  \<noteq> req_Header (requests h req)"
    using assms proxyToMaintenanceService_forwarded[of _ m rt h rw req] by auto
  show ?thesis
    using assms fwd proxyToMaintenanceService_frame[of _ h m rt rw req]
      ServeHTTP_frame[of _ h m fs rt rw0 req]
    by simp
qed

theorem proxyToMaintenanceService_leaves_request_witness:
  "(0::nat) < brk example_heap \<and> req_URL (requests example_heap 0) < brk example_heap
   \<and> req_Header (requests example_heap 0) < brk example_heap
   \<and> requests (fst (proxyToMaintenanceService example_m_remote example_rt example_heap [] 0)) 0
       = \<lparr> req_Method = ''GET'', req_URL = 0, req_Header = 0, req_Host = ''example.com'' \<rparr>
   \<and> urls (fst (proxyToMaintenanceService example_m_remote example_rt example_heap [] 0)) 0
       = \<lparr> Scheme = ''http'', Host = ''example.com'', Path = ''/test'' \<rparr>
   \<and> RoundTrip 1 \<in> set (snd (snd (proxyToMaintenanceService example_m_remote example_rt example_heap [] 0)))
   \<and> requests (fst (proxyToMaintenanceService example_m_remote example_rt example_heap [] 0)) 1
       = \<lparr> req_Method = ''GET'', req_URL = 1, req_Header = 1, req_Host = ''maintenance-service'' \<rparr>
   \<and> urls (fst (proxyToMaintenanceService example_m_remote example_rt example_heap [] 0)) 1
       = \<lparr> Scheme = ''http'', Host = ''maintenance-service'', Path = ''/test'' \<rparr>"
proof -
  have pre: "(0::nat) < brk example_heap" "req_URL (requests example_heap 0) < brk example_heap"
    "req_Header (requests example_heap 0) < brk example_heap"
    by (simp_all add: example_heap_def)
  have orig: "requests example_heap 0
       = \<lparr> req_Method = ''GET'', req_URL = 0, req_Header = 0, req_Host = ''example.com'' \<rparr>"
    "urls example_heap 0 = \<lparr> Scheme = ''http'', Host = ''example.com'', Path = ''/test'' \<rparr>"
    "brk example_heap = 1"
    by (simp_all add: example_heap_def)
  have ms: "maintenanceService example_m_remote
      = Some \<lparr> Scheme = ''http'', Host = ''maintenance-service'', Path = '''' \<rparr>"
    by (simp add: example_m_remote_def example_m_file_def)
  from proxyToMaintenanceService_leaves_request[OF pre,
      where m = example_m_remote and rt = example_rt and rw = "[]"]
    proxyToMaintenanceService_forwards(2)[OF ms,
      where rt = example_rt and h = example_heap and rw = "[]" and req = 0]
    proxyToMaintenanceService_forwards(3)[OF ms,
      where rt = example_rt and h = example_heap and rw = "[]" and req = 0]
    proxyToMaintenanceService_forwards(4)[OF ms,
      where rt = example_rt and h = example_heap and rw = "[]" and req = 0]
    pre orig
  show ?thesis by simp
qed

section \<open>Claims about the content sources\<close>




text \<open>
  C2, as claimed: construction succeeds only when exactly one of file path, inline content
  and remote service address is non-empty. It does not hold: with a file path and inline
  content both non-empty, \<open>New\<close> returns a middleware.
\<close>

theorem New_two_sources_counterexample:
  "MaintenanceFilePath example_config_file_and_inline \<noteq> ''''
   \<and> MaintenanceContent example_config_file_and_inline \<noteq> ''''
   \<and> fst (New example_url_Parse example_fs example_config_file_and_inline ''maintenance-test'')
       = Inr example_m_file_and_inline"
  using example_New_file_and_inline
  by (simp add: example_config_file_and_inline_def CreateConfig_def example_path_def)

text \<open>
  C2, amended. Construction succeeds only when at least one of file path, inline content
  and remote service address is non-empty: with none of them \<open>New\<close> fails, with the error
  that a content source must be specified.
\<close>

theorem New_requires_some_source:
  "(MaintenanceFilePath config = '''' \<and> MaintenanceContent config = ''''
      \<and> MaintenanceService config = ''''
     \<longrightarrow> fst (New url_Parse fs config nm) = Inl ErrNoSource)
   \<and> (\<not> isl (fst (New url_Parse fs config nm))
     \<longrightarrow> MaintenanceFilePath config \<noteq> '''' \<or> MaintenanceContent config \<noteq> ''''
         \<or> MaintenanceService config \<noteq> '''')"
  using New_no_source[of config url_Parse fs nm] by auto

theorem New_requires_some_source_witness:
  "MaintenanceFilePath CreateConfig = '''' \<and> MaintenanceContent CreateConfig = ''''
   \<and> MaintenanceService CreateConfig = ''''
   \<and> fst (New example_url_Parse example_fs CreateConfig ''maintenance-test'') = Inl ErrNoSource
   \<and> \<not> isl (fst (New example_url_Parse example_fs example_config_file ''maintenance-test''))
   \<and> MaintenanceFilePath example_config_file \<noteq> ''''"
proof -
  have none: "MaintenanceFilePath CreateConfig = ''''" "MaintenanceContent CreateConfig = ''''"
    "MaintenanceService CreateConfig = ''''"
    by (simp_all add: CreateConfig_def)
  have some: "MaintenanceFilePath example_config_file \<noteq> ''''"
    by (simp add: example_config_file_def example_path_def)
  from New_requires_some_source[of CreateConfig example_url_Parse example_fs "''maintenance-test''"]
    New_requires_some_source[of example_config_file example_url_Parse example_fs "''maintenance-test''"]
    none some example_New_file
  show ?thesis by simp
qed

section \<open>Claims about file errors at run time\<close>




end
